theory Spec2Isabelle
  imports Main
begin

section \<open>Data model (models.py)\<close>

text \<open>
  A \<open>datetime\<close> is a point on the time line, counted in microseconds (the resolution of
  Python's \<open>datetime\<close>). The clock \<open>datetime.now(timezone.utc)\<close> is an input of the
  model: every reading the code takes is a parameter of the operation that takes it.
\<close>

type_synonym datetime = int

text \<open>
  \<open>class Task(SQLModel, table=True)\<close>: one row of the table. The columns \<open>id\<close>, \<open>title\<close>,
  \<open>status\<close>, \<open>created_at\<close> and \<open>updated_at\<close> are NOT NULL (\<open>id\<close> is the primary key and
  is \<open>None\<close> only on the Python object before the insert is flushed), \<open>description\<close> is
  nullable. The field \<open>id\<close> is written \<open>id'\<close>.
\<close>

record Task =
  id' :: int
  title :: string
  description :: "string option"
  status :: string
  created_at :: datetime
  updated_at :: datetime

text \<open>\<open>class TaskCreate(BaseModel)\<close>: the creation schema has a title and a description only.\<close>

record TaskCreate =
  title :: string
  description :: "string option"

text \<open>
  \<open>class TaskUpdate(BaseModel)\<close>: three optional fields. Pydantic remembers which fields the
  request set, so each field has three states: \<open>None\<close> (not set), \<open>Some None\<close> (set to
  \<open>null\<close>) and \<open>Some (Some v)\<close> (set to the string \<open>v\<close>).
\<close>

record TaskUpdate =
  title :: "string option option"
  description :: "string option option"
  status :: "string option option"

text \<open>The errors a request can end with, named by their HTTP status.\<close>

datatype http_error =
  HTTP_400_BAD_REQUEST
  | HTTP_404_NOT_FOUND
  | HTTP_422_UNPROCESSABLE_ENTITY
  | HTTP_500_INTERNAL_SERVER_ERROR

text \<open>
  The table \<open>task\<close>, its rows in the order a \<open>select(Task)\<close> returns them. The engine is a
  collaborator of the code; the model takes the order of an unordered \<open>select\<close> to be the
  order of insertion (what \<open>test_list_tasks_with_data\<close> expects): an insert appends a row,
  an update changes a row in place and a delete removes it.
\<close>

type_synonym database = "Task list"

section \<open>The session (sqlmodel.Session over the table)\<close>

text \<open>
  The engine's keys are signed 64-bit integers.
\<close>

definition key_in_range :: "int \<Rightarrow> bool" where
  "key_in_range k = (- 9223372036854775808 \<le> k \<and> k \<le> 9223372036854775807)"

text \<open>What a call of the session can raise.\<close>

datatype db_error = OverflowError

text \<open>
  \<open>session.get(Task, task_id)\<close>: the row whose primary key is \<open>task_id\<close>, or \<open>None\<close> when
  there is none. The handlers pass a Python \<open>int\<close> of any size; a \<open>task_id\<close> outside the
  range of the engine's keys cannot be bound to the query, and the driver raises
  \<open>OverflowError\<close> instead of answering. A table of the engine holds keys of the range
  only, so there the test is the range test alone; the second disjunct extends it to
  lists of rows that are no such table, so that a key which a row holds is always looked
  up.
\<close>

definition session_get :: "database \<Rightarrow> int \<Rightarrow> db_error + Task option" where
  "session_get db task_id =
     (if key_in_range task_id \<or> task_id \<in> set (map id' db)
      then Inr (find (\<lambda>r. id' r = task_id) db)
      else Inl OverflowError)"

text \<open>
  INSERT: the engine issues the primary key \<open>key\<close>; a key that a live row holds violates the
  primary-key constraint, and the commit fails (\<open>None\<close>).
\<close>

definition session_insert :: "int \<Rightarrow> Task \<Rightarrow> database \<Rightarrow> database option" where
  "session_insert key task db =
     (if key \<in> set (map id' db) then None else Some (db @ [task\<lparr>id' := key\<rparr>]))"

text \<open>UPDATE ... WHERE id = the object's key.\<close>

definition session_update :: "Task \<Rightarrow> database \<Rightarrow> database" where
  "session_update task db = map (\<lambda>r. if id' r = id' task then task else r) db"

text \<open>DELETE ... WHERE id = the object's key.\<close>

definition session_delete :: "Task \<Rightarrow> database \<Rightarrow> database" where
  "session_delete task db = filter (\<lambda>r. id' r \<noteq> id' task) db"

section \<open>The endpoints (main.py)\<close>

definition valid_statuses :: "string list" where
  "valid_statuses = [''pending'', ''in_progress'', ''completed'']"

subsection \<open>create_task\<close>

text \<open>
  \<open>Task(title=..., description=...)\<close>: \<open>status\<close> takes its default, and the default factory
  \<open>get_current_time\<close> runs once for \<open>created_at\<close> and once more for \<open>updated_at\<close>, so the
  two fields hold two successive readings of the clock. The \<open>id\<close> is set by the insert.
\<close>

definition Task_init :: "string \<Rightarrow> string option \<Rightarrow> datetime \<Rightarrow> datetime \<Rightarrow> Task" where
  "Task_init ttl descr now1 now2 =
     \<lparr>id' = 0, title = ttl, description = descr, status = ''pending'',
      created_at = now1, updated_at = now2\<rparr>"

text \<open>
  \<open>session.add; session.commit; session.refresh\<close>. The handler catches no exception: a
  failed commit ends the request with status 500 and the transaction is rolled back.
\<close>

definition create_task ::
  "TaskCreate \<Rightarrow> int \<Rightarrow> datetime \<Rightarrow> datetime \<Rightarrow> database \<Rightarrow> (http_error + Task) \<times> database" where
  "create_task task_data key now1 now2 db =
     (let task = Task_init (TaskCreate.title task_data) (TaskCreate.description task_data) now1 now2
      in case session_insert key task db of
           None \<Rightarrow> (Inl HTTP_500_INTERNAL_SERVER_ERROR, db)
         | Some db' \<Rightarrow>
             (case session_get db' key of
                Inr (Some row) \<Rightarrow> (Inr row, db')
              | _ \<Rightarrow> (Inl HTTP_500_INTERNAL_SERVER_ERROR, db)))"

subsection \<open>list_tasks\<close>

text \<open>
  \<open>if status_filter:\<close> is false for \<open>None\<close> and for the empty string. The handler has no
  other parameter than the filter (and the session).
\<close>

definition list_tasks :: "string option \<Rightarrow> database \<Rightarrow> http_error + Task list" where
  "list_tasks status_filter db =
     (case status_filter of
        None \<Rightarrow> Inr db
      | Some f \<Rightarrow>
          if f = [] then Inr db
          else if f \<notin> set valid_statuses then Inl HTTP_400_BAD_REQUEST
          else Inr (filter (\<lambda>r. Task.status r = f) db))"

subsection \<open>get_task\<close>

text \<open>
  No handler catches what \<open>session.get\<close> raises: the request then ends with status 500.
\<close>

definition get_task :: "int \<Rightarrow> database \<Rightarrow> http_error + Task" where
  "get_task task_id db =
     (case session_get db task_id of
        Inl OverflowError \<Rightarrow> Inl HTTP_500_INTERNAL_SERVER_ERROR
      | Inr None \<Rightarrow> Inl HTTP_404_NOT_FOUND
      | Inr (Some task) \<Rightarrow> Inr task)"

subsection \<open>update_task\<close>

text \<open>
  \<open>task_update.model_dump(exclude_unset=True)\<close>: the dictionary of the fields the request
  set, in the order of the class.
\<close>

definition model_dump :: "TaskUpdate \<Rightarrow> (string \<times> string option) list" where
  "model_dump u =
     (case TaskUpdate.title u of None \<Rightarrow> [] | Some v \<Rightarrow> [(''title'', v)]) @
     (case TaskUpdate.description u of None \<Rightarrow> [] | Some v \<Rightarrow> [(''description'', v)]) @
     (case TaskUpdate.status u of None \<Rightarrow> [] | Some v \<Rightarrow> [(''status'', v)])"

text \<open>
  \<open>setattr(task, key, value)\<close>. A table model does not validate an assignment, so \<open>None\<close>
  can be assigned to \<open>title\<close> or \<open>status\<close>; the row then violates NOT NULL and the commit
  fails. Nothing is written before the commit, so the model reports the failure (\<open>None\<close>)
  at the assignment.
\<close>

fun setattr :: "Task \<Rightarrow> string \<times> string option \<Rightarrow> Task option" where
  "setattr task (key, value) =
     (if key = ''title'' then
        (case value of None \<Rightarrow> None | Some v \<Rightarrow> Some (task\<lparr>Task.title := v\<rparr>))
      else if key = ''description'' then Some (task\<lparr>Task.description := value\<rparr>)
      else if key = ''status'' then
        (case value of None \<Rightarrow> None | Some v \<Rightarrow> Some (task\<lparr>Task.status := v\<rparr>))
      else None)"

text \<open>\<open>for key, value in update_data.items(): setattr(task, key, value)\<close>\<close>

fun setattrs :: "(string \<times> string option) list \<Rightarrow> Task \<Rightarrow> Task option" where
  "setattrs [] task = Some task"
| "setattrs (kv # update_data) task =
     (case setattr task kv of
        None \<Rightarrow> None
      | Some task' \<Rightarrow> setattrs update_data task')"

text \<open>
  The handler looks the task up first (500 when the lookup raises, 404 when it finds no
  row), then checks the status (400), then assigns
  the fields, sets \<open>updated_at\<close> to a reading of the clock and commits.
  \<open>update_data["status"] not in valid_statuses\<close> holds for \<open>None\<close> too.
\<close>

definition update_task ::
  "int \<Rightarrow> TaskUpdate \<Rightarrow> datetime \<Rightarrow> database \<Rightarrow> (http_error + Task) \<times> database" where
  "update_task task_id task_update now db =
     (case session_get db task_id of
        Inl OverflowError \<Rightarrow> (Inl HTTP_500_INTERNAL_SERVER_ERROR, db)
      | Inr None \<Rightarrow> (Inl HTTP_404_NOT_FOUND, db)
      | Inr (Some task) \<Rightarrow>
          (let update_data = model_dump task_update in
           if (case map_of update_data ''status'' of
                 None \<Rightarrow> False
               | Some v \<Rightarrow> v \<notin> set (map Some valid_statuses))
           then (Inl HTTP_400_BAD_REQUEST, db)
           else
             (case setattrs update_data task of
                None \<Rightarrow> (Inl HTTP_500_INTERNAL_SERVER_ERROR, db)
              | Some task' \<Rightarrow>
                  (let task'' = task'\<lparr>updated_at := now\<rparr>
                   in (Inr task'', session_update task'' db)))))"

subsection \<open>delete_task\<close>

definition delete_task :: "int \<Rightarrow> database \<Rightarrow> (http_error + unit) \<times> database" where
  "delete_task task_id db =
     (case session_get db task_id of
        Inl OverflowError \<Rightarrow> (Inl HTTP_500_INTERNAL_SERVER_ERROR, db)
      | Inr None \<Rightarrow> (Inl HTTP_404_NOT_FOUND, db)
      | Inr (Some task) \<Rightarrow> (Inr (), session_delete task db))"

section \<open>The routes: what the framework binds before it calls a handler\<close>

text \<open>
  A query string and the members of a JSON object are lists of name/value pairs, in which
  the last pair under a name is the one that counts. A query parameter that a handler
  declares is bound to that value, and to its default (\<open>None\<close>) when the name is absent;
  pairs under names that the handler does not declare are not bound.
\<close>

definition lookup_last :: "(string \<times> 'a) list \<Rightarrow> string \<Rightarrow> 'a option" where
  "lookup_last q name = map_of (rev q) name"

text \<open>\<open>@app.get("/tasks")\<close>: \<open>list_tasks\<close> declares the query parameter \<open>status_filter\<close>.\<close>

definition get_tasks_route :: "(string \<times> string) list \<Rightarrow> database \<Rightarrow> http_error + Task list" where
  "get_tasks_route q db = list_tasks (lookup_last q ''status_filter'') db"

text \<open>
  A JSON value, and the validation of a request body against \<open>TaskCreate\<close>: \<open>title\<close> is a
  required string of 1 to 200 characters, \<open>description\<close> an optional string of at most
  1000 characters (or \<open>null\<close>); a member under any other name is ignored (the class sets
  no \<open>extra\<close> policy). A body that fails is answered with status 422 and the handler does
  not run.
\<close>

datatype json =
  JNull
  | JBool bool
  | JNumber int
  | JString string
  | JArray "json list"
  | JObject "(string \<times> json) list"

definition TaskCreate_validate :: "(string \<times> json) list \<Rightarrow> http_error + TaskCreate" where
  "TaskCreate_validate body =
     (case lookup_last body ''title'' of
        Some (JString t) \<Rightarrow>
          if 1 \<le> length t \<and> length t \<le> 200 then
            (case lookup_last body ''description'' of
               None \<Rightarrow> Inr \<lparr>TaskCreate.title = t, description = None\<rparr>
             | Some JNull \<Rightarrow> Inr \<lparr>TaskCreate.title = t, description = None\<rparr>
             | Some (JString d) \<Rightarrow>
                 if length d \<le> 1000 then Inr \<lparr>TaskCreate.title = t, description = Some d\<rparr>
                 else Inl HTTP_422_UNPROCESSABLE_ENTITY
             | Some _ \<Rightarrow> Inl HTTP_422_UNPROCESSABLE_ENTITY)
          else Inl HTTP_422_UNPROCESSABLE_ENTITY
      | _ \<Rightarrow> Inl HTTP_422_UNPROCESSABLE_ENTITY)"

text \<open>\<open>@app.post("/tasks")\<close>: validation of the body, then \<open>create_task\<close>.\<close>

definition post_tasks_route ::
  "(string \<times> json) list \<Rightarrow> int \<Rightarrow> datetime \<Rightarrow> datetime \<Rightarrow> database
     \<Rightarrow> (http_error + Task) \<times> database" where
  "post_tasks_route body key now1 now2 db =
     (case TaskCreate_validate body of
        Inl e \<Rightarrow> (Inl e, db)
      | Inr task_data \<Rightarrow> create_task task_data key now1 now2 db)"

section \<open>Sequences of requests\<close>

text \<open>
  A mutating request with what the collaborators supply to it: the key the engine issues
  for an insert, and the readings of the clock.
\<close>

datatype request =
  Create TaskCreate int datetime datetime
  | Update int TaskUpdate datetime
  | Delete int

fun step :: "request \<Rightarrow> database \<Rightarrow> database" where
  "step (Create task_data key now1 now2) db = snd (create_task task_data key now1 now2 db)"
| "step (Update task_id task_update now) db = snd (update_task task_id task_update now db)"
| "step (Delete task_id) db = snd (delete_task task_id db)"

definition run :: "request list \<Rightarrow> database \<Rightarrow> database" where
  "run reqs db = fold step reqs db"

text \<open>
  A clock that never goes backwards: the readings of a sequence of requests, in the order
  in which they are taken, are non-decreasing from \<open>t\<close> on.
\<close>

fun clock_ok :: "datetime \<Rightarrow> request list \<Rightarrow> bool" where
  "clock_ok t [] = True"
| "clock_ok t (Create task_data key now1 now2 # reqs) =
     (t \<le> now1 \<and> now1 \<le> now2 \<and> clock_ok now2 reqs)"
| "clock_ok t (Update task_id task_update now # reqs) = (t \<le> now \<and> clock_ok now reqs)"
| "clock_ok t (Delete task_id # reqs) = clock_ok t reqs"

text \<open>
  One engine's key policy, SQLite's for an INTEGER PRIMARY KEY column without
  AUTOINCREMENT: 1 for an empty table, else one more than the largest key in use.
\<close>

definition sqlite_rowid :: "database \<Rightarrow> int" where
  "sqlite_rowid db = (if db = [] then 1 else Max (set (map id' db)) + 1)"

text \<open>
  Every row was created no later than it was last updated, and no later than the
  instant \<open>t\<close>.
\<close>

definition stamps_ok :: "datetime \<Rightarrow> database \<Rightarrow> bool" where
  "stamps_ok t db = (\<forall>r \<in> set db. created_at r \<le> updated_at r \<and> created_at r \<le> t)"

text \<open>A table of three tasks, the second one updated once, for the concrete instances below.\<close>

definition example_db :: database where
  "example_db =
     [\<lparr>id' = 1, title = ''Task 1'', description = None, status = ''pending'',
       created_at = 10, updated_at = 10\<rparr>,
      \<lparr>id' = 2, title = ''Task 2'', description = Some ''second'', status = ''in_progress'',
       created_at = 20, updated_at = 25\<rparr>,
      \<lparr>id' = 3, title = ''Task 3'', description = None, status = ''pending'',
       created_at = 30, updated_at = 30\<rparr>]"

section \<open>Basic facts\<close>

lemma find_id_None_iff: "find (\<lambda>r. id' r = i) db = None \<longleftrightarrow> i \<notin> set (map id' db)"
  by (induction db) auto

lemma find_id_Some: "find (\<lambda>r. id' r = i) db = Some t \<Longrightarrow> id' t = i \<and> t \<in> set db"
  by (induction db) (auto split: if_splits)

lemma session_get_Some_id: "session_get db i = Inr (Some t) \<Longrightarrow> id' t = i \<and> t \<in> set db"
  unfolding session_get_def
  by (auto split: if_splits dest: find_id_Some)

lemma session_get_found_iff:
  "session_get db i = Inr (Some t) \<longleftrightarrow> find (\<lambda>r. id' r = i) db = Some t"
  unfolding session_get_def using find_id_Some [of i db t]
  by auto

text \<open>A key that a row holds is found; the other keys give \<open>None\<close> or raise, by their range.\<close>

lemma session_get_live: "i \<in> set (map id' db) \<Longrightarrow> \<exists>t. session_get db i = Inr (Some t)"
  unfolding session_get_def using find_id_None_iff [of i db]
  by (cases "find (\<lambda>r. id' r = i) db") auto

lemma session_get_None_iff:
  "session_get db i = Inr None \<longleftrightarrow> key_in_range i \<and> i \<notin> set (map id' db)"
  unfolding session_get_def using find_id_None_iff [of i db]
  by auto

lemma session_get_raises_iff:
  "session_get db i = Inl e \<longleftrightarrow> \<not> key_in_range i \<and> i \<notin> set (map id' db)"
  unfolding session_get_def by (cases e) auto

lemma map_of_model_dump_status: "map_of (model_dump u) ''status'' = TaskUpdate.status u"
  by (cases "TaskUpdate.title u"; cases "TaskUpdate.description u"; cases "TaskUpdate.status u")
     (simp_all add: model_dump_def)

text \<open>The loop over the dictionary, field by field.\<close>

lemma setattrs_model_dump:
  "setattrs (model_dump u) task =
     (if TaskUpdate.title u = Some None \<or> TaskUpdate.status u = Some None then None
      else Some (task\<lparr>
        Task.title := (case TaskUpdate.title u of Some (Some v) \<Rightarrow> v | _ \<Rightarrow> Task.title task),
        Task.description :=
          (case TaskUpdate.description u of Some v \<Rightarrow> v | None \<Rightarrow> Task.description task),
        Task.status := (case TaskUpdate.status u of Some (Some v) \<Rightarrow> v | _ \<Rightarrow> Task.status task)\<rparr>))"
  by (cases "TaskUpdate.title u"; cases "TaskUpdate.description u"; cases "TaskUpdate.status u")
     (auto simp add: model_dump_def split: option.splits)

text \<open>The outcomes of \<open>update_task\<close>, in the order in which the handler decides them.\<close>

lemma update_task_cases:
  "update_task i u now db =
     (case session_get db i of
        Inl e \<Rightarrow> (Inl HTTP_500_INTERNAL_SERVER_ERROR, db)
      | Inr None \<Rightarrow> (Inl HTTP_404_NOT_FOUND, db)
      | Inr (Some task) \<Rightarrow>
          if (case TaskUpdate.status u of
                None \<Rightarrow> False
              | Some v \<Rightarrow> v \<notin> set (map Some valid_statuses))
          then (Inl HTTP_400_BAD_REQUEST, db)
          else if TaskUpdate.title u = Some None then (Inl HTTP_500_INTERNAL_SERVER_ERROR, db)
          else
            (Inr (task\<lparr>
               Task.title :=
                 (case TaskUpdate.title u of Some (Some v) \<Rightarrow> v | _ \<Rightarrow> Task.title task),
               Task.description :=
                 (case TaskUpdate.description u of Some v \<Rightarrow> v | None \<Rightarrow> Task.description task),
               Task.status :=
                 (case TaskUpdate.status u of Some (Some v) \<Rightarrow> v | _ \<Rightarrow> Task.status task),
               updated_at := now\<rparr>),
             session_update (task\<lparr>
               Task.title :=
                 (case TaskUpdate.title u of Some (Some v) \<Rightarrow> v | _ \<Rightarrow> Task.title task),
               Task.description :=
                 (case TaskUpdate.description u of Some v \<Rightarrow> v | None \<Rightarrow> Task.description task),
               Task.status :=
                 (case TaskUpdate.status u of Some (Some v) \<Rightarrow> v | _ \<Rightarrow> Task.status task),
               updated_at := now\<rparr>) db))"
  unfolding update_task_def Let_def map_of_model_dump_status setattrs_model_dump
  by (auto split: option.splits sum.splits db_error.splits simp: valid_statuses_def)

lemma find_append: "find P (xs @ ys) = (case find P xs of None \<Rightarrow> find P ys | Some x \<Rightarrow> Some x)"
  by (induction xs) auto

lemma session_get_session_update:
  "i \<in> set (map id' db) \<Longrightarrow> id' task' = i \<Longrightarrow>
   session_get (session_update task' db) i = Inr (Some task')"
proof -
  assume "i \<in> set (map id' db)" and "id' task' = i"
  then have "find (\<lambda>r. id' r = i) (map (\<lambda>r. if id' r = i then task' else r) db) = Some task'"
    by (induction db) auto
  with \<open>id' task' = i\<close> show ?thesis
    by (simp add: session_get_found_iff session_update_def)
qed

text \<open>The two outcomes of \<open>create_task\<close>: the key is unused, or a live row holds it.\<close>

lemma create_task_fresh:
  "key \<notin> set (map id' db) \<Longrightarrow>
   create_task c key now1 now2 db =
     (Inr \<lparr>id' = key, title = TaskCreate.title c, description = TaskCreate.description c,
           status = ''pending'', created_at = now1, updated_at = now2\<rparr>,
      db @ [\<lparr>id' = key, title = TaskCreate.title c, description = TaskCreate.description c,
             status = ''pending'', created_at = now1, updated_at = now2\<rparr>])"
proof -
  assume k: "key \<notin> set (map id' db)"
  then have "find (\<lambda>r. id' r = key) db = None"
    by (simp add: find_id_None_iff)
  then show ?thesis
    using k by (simp add: create_task_def session_insert_def session_get_def Task_init_def find_append)
qed

lemma create_task_taken:
  "key \<in> set (map id' db) \<Longrightarrow>
   create_task c key now1 now2 db = (Inl HTTP_500_INTERNAL_SERVER_ERROR, db)"
  by (simp add: create_task_def session_insert_def)

section \<open>Merge semantics of update\<close>

text \<open>
  Claim C1. For a live task and any update payload, \<open>update_task\<close> changes, of the fields
  \<open>title\<close>, \<open>description\<close> and \<open>status\<close>, only those the payload supplies: a field the
  payload leaves unset keeps its prior value and a supplied field takes the supplied
  value. The \<open>id\<close> and \<open>created_at\<close> of the task are kept, the row stays at its place in
  the table and every other row is untouched; an update that fails changes nothing.
  (\<open>updated_at\<close>, which is not one of the payload's fields, is refreshed: claim C6.)
\<close>

theorem update_task_merge:
  assumes "session_get db task_id = Inr (Some task)"
  shows "case update_task task_id u now db of
           (Inl e, db') \<Rightarrow> db' = db
         | (Inr task', db') \<Rightarrow>
             (TaskUpdate.title u = None \<longrightarrow> Task.title task' = Task.title task) \<and>
             (\<forall>v. TaskUpdate.title u = Some v \<longrightarrow> v = Some (Task.title task')) \<and>
             (TaskUpdate.description u = None \<longrightarrow>
                Task.description task' = Task.description task) \<and>
             (\<forall>v. TaskUpdate.description u = Some v \<longrightarrow> v = Task.description task') \<and>
             (TaskUpdate.status u = None \<longrightarrow> Task.status task' = Task.status task) \<and>
             (\<forall>v. TaskUpdate.status u = Some v \<longrightarrow> v = Some (Task.status task')) \<and>
             id' task' = id' task \<and> created_at task' = created_at task \<and>
             db' = map (\<lambda>r. if id' r = task_id then task' else r) db"
proof -
  have i: "id' task = task_id"
    using assms by (simp add: session_get_Some_id)
  show ?thesis
    unfolding update_task_cases using assms i
    by (auto simp: session_update_def split: option.splits)
qed

theorem update_task_merge_witness:
  "session_get example_db 2 =
     Inr (Some \<lparr>id' = 2, title = ''Task 2'', description = Some ''second'',
           status = ''in_progress'', created_at = 20, updated_at = 25\<rparr>) \<and>
   update_task 2 \<lparr>TaskUpdate.title = Some (Some ''Renamed''), description = None, status = None\<rparr>
       40 example_db =
     (Inr \<lparr>id' = 2, title = ''Renamed'', description = Some ''second'', status = ''in_progress'',
          created_at = 20, updated_at = 40\<rparr>,
      [\<lparr>id' = 1, title = ''Task 1'', description = None, status = ''pending'',
         created_at = 10, updated_at = 10\<rparr>,
       \<lparr>id' = 2, title = ''Renamed'', description = Some ''second'', status = ''in_progress'',
         created_at = 20, updated_at = 40\<rparr>,
       \<lparr>id' = 3, title = ''Task 3'', description = None, status = ''pending'',
         created_at = 30, updated_at = 30\<rparr>])"
proof -
  have g: "session_get example_db 2 =
     Inr (Some \<lparr>id' = 2, title = ''Task 2'', description = Some ''second'',
           status = ''in_progress'', created_at = 20, updated_at = 25\<rparr>)"
    by (simp add: session_get_def example_db_def)
  show ?thesis
    using g update_task_merge [OF g,
        of "\<lparr>TaskUpdate.title = Some (Some ''Renamed''), description = None, status = None\<rparr>" 40]
    by (simp add: update_task_def model_dump_def session_update_def example_db_def Let_def
        valid_statuses_def)
qed

section \<open>Identifiers that match no live record\<close>

text \<open>
  For an identifier in the range of the engine's keys, the handlers do what claim C2
  says. When no live record has the identifier, \<open>get_task\<close>, \<open>update_task\<close> and
  \<open>delete_task\<close> each fail with 404 (not found), and the table after the failing call is
  the table before it. After a \<open>delete_task\<close> that succeeded, \<open>get_task\<close> and a further
  \<open>delete_task\<close> on the same identifier both fail with 404.
\<close>

lemma not_found_in_key_range:
  "(key_in_range task_id \<and> task_id \<notin> set (map id' db) \<longrightarrow>
      get_task task_id db = Inl HTTP_404_NOT_FOUND \<and>
      update_task task_id u now db = (Inl HTTP_404_NOT_FOUND, db) \<and>
      delete_task task_id db = (Inl HTTP_404_NOT_FOUND, db)) \<and>
   (key_in_range task_id \<and> delete_task task_id db = (Inr (), db') \<longrightarrow>
      get_task task_id db' = Inl HTTP_404_NOT_FOUND \<and>
      delete_task task_id db' = (Inl HTTP_404_NOT_FOUND, db'))"
proof -
  have absent: "get_task i d = Inl HTTP_404_NOT_FOUND \<and>
      update_task i u now d = (Inl HTTP_404_NOT_FOUND, d) \<and>
      delete_task i d = (Inl HTTP_404_NOT_FOUND, d)"
    if "key_in_range i \<and> i \<notin> set (map id' d)" for i d
  proof -
    from that have "session_get d i = Inr None"
      by (simp add: session_get_None_iff)
    then show ?thesis
      by (simp add: get_task_def update_task_def delete_task_def)
  qed
  have gone: "task_id \<notin> set (map id' db')" if d: "delete_task task_id db = (Inr (), db')"
  proof -
    from d obtain task where t: "session_get db task_id = Inr (Some task)"
      and db': "db' = session_delete task db"
      by (auto simp: delete_task_def split: sum.splits option.splits db_error.splits)
    from t have "id' task = task_id"
      by (simp add: session_get_Some_id)
    with db' show ?thesis
      by (auto simp: session_delete_def)
  qed
  from absent [of task_id db] absent [of task_id db'] gone show ?thesis
    by blast
qed

lemma not_found_in_key_range_instance:
  "key_in_range 99 \<and> 99 \<notin> set (map id' example_db) \<and>
   get_task 99 example_db = Inl HTTP_404_NOT_FOUND \<and>
   update_task 99 \<lparr>TaskUpdate.title = Some (Some ''Updated''), description = None, status = None\<rparr>
       40 example_db = (Inl HTTP_404_NOT_FOUND, example_db) \<and>
   delete_task 99 example_db = (Inl HTTP_404_NOT_FOUND, example_db) \<and>
   key_in_range 2 \<and>
   delete_task 2 example_db = (Inr (), [example_db ! 0, example_db ! 2]) \<and>
   get_task 2 [example_db ! 0, example_db ! 2] = Inl HTTP_404_NOT_FOUND \<and>
   delete_task 2 [example_db ! 0, example_db ! 2] =
     (Inl HTTP_404_NOT_FOUND, [example_db ! 0, example_db ! 2])"
proof -
  have a: "key_in_range 99 \<and> 99 \<notin> set (map id' example_db) \<and> key_in_range 2"
    by (simp add: example_db_def key_in_range_def)
  have d: "delete_task 2 example_db = (Inr (), [example_db ! 0, example_db ! 2])"
    by (simp add: delete_task_def session_get_def session_delete_def example_db_def)
  show ?thesis
    using a d
      not_found_in_key_range [of 99 example_db
        "\<lparr>TaskUpdate.title = Some (Some ''Updated''), description = None, status = None\<rparr>" 40
        "[]"]
      not_found_in_key_range [of 2 example_db
        "\<lparr>TaskUpdate.title = None, description = None, status = None\<rparr>" 0
        "[example_db ! 0, example_db ! 2]"]
    by simp
qed

text \<open>
  Claim C2 says that for every identifier that matches no live record, \<open>get_task\<close>,
  \<open>update_task\<close> and \<open>delete_task\<close> fail with 404 and leave the table unchanged. The
  code does not do so for every identifier: 9223372036854775808 matches no record of the
  table, \<open>session.get\<close> raises \<open>OverflowError\<close> on it, no handler catches that, and each
  of the three requests ends with status 500 and not with 404. The table is unchanged.
\<close>

theorem not_found_overflow:
  "9223372036854775808 \<notin> set (map id' example_db) \<and>
   get_task 9223372036854775808 example_db = Inl HTTP_500_INTERNAL_SERVER_ERROR \<and>
   get_task 9223372036854775808 example_db \<noteq> Inl HTTP_404_NOT_FOUND \<and>
   update_task 9223372036854775808
       \<lparr>TaskUpdate.title = Some (Some ''Updated''), description = None, status = None\<rparr>
       40 example_db = (Inl HTTP_500_INTERNAL_SERVER_ERROR, example_db) \<and>
   delete_task 9223372036854775808 example_db = (Inl HTTP_500_INTERNAL_SERVER_ERROR, example_db)"
  by (simp add: get_task_def update_task_def delete_task_def session_get_def key_in_range_def
      example_db_def)

section \<open>Listing\<close>

text \<open>
  Claim C3. For a status \<open>f\<close> of the three valid ones, \<open>list_tasks\<close> with the filter \<open>f\<close>
  returns exactly the rows of the table whose status is \<open>f\<close>, in the order of the table
  (the order of insertion), whatever the other rows hold; with no filter it returns every
  row in that order.
\<close>

theorem list_tasks_filter:
  "(f \<in> set valid_statuses \<longrightarrow>
      list_tasks (Some f) db = Inr (filter (\<lambda>r. Task.status r = f) db)) \<and>
   list_tasks None db = Inr db"
  by (auto simp: list_tasks_def valid_statuses_def)

theorem list_tasks_filter_witness:
  "''pending'' \<in> set valid_statuses \<and>
   list_tasks (Some ''pending'') example_db = Inr [example_db ! 0, example_db ! 2] \<and>
   list_tasks None example_db = Inr example_db"
proof -
  have v: "''pending'' \<in> set valid_statuses"
    by (simp add: valid_statuses_def)
  show ?thesis
    using v list_tasks_filter [of "''pending''" example_db]
    by (simp add: example_db_def)
qed

text \<open>
  Claim C9. The empty string as status filter is treated as no filter: \<open>list_tasks\<close>
  succeeds with every row of the table and raises no 400, in the handler and through the
  route's query string alike.
\<close>

theorem list_tasks_empty_filter:
  "list_tasks (Some []) db = Inr db \<and> get_tasks_route [(''status_filter'', [])] db = Inr db"
  by (simp add: list_tasks_def get_tasks_route_def lookup_last_def)

lemma take_drop_all_iff:
  "take n (drop k xs) = xs \<longleftrightarrow> xs = [] \<or> (k = 0 \<and> length xs \<le> n)"
proof
  assume e: "take n (drop k xs) = xs"
  then have "length (take n (drop k xs)) = length xs" by simp
  then have "min (length xs - k) n = length xs" by simp
  then show "xs = [] \<or> (k = 0 \<and> length xs \<le> n)"
    by (cases xs) (auto simp: min_def split: if_splits)
next
  assume "xs = [] \<or> (k = 0 \<and> length xs \<le> n)"
  then show "take n (drop k xs) = xs" by auto
qed

lemma lookup_last_other:
  "n \<noteq> name \<Longrightarrow> lookup_last (q1 @ (n, v) # q2) name = lookup_last (q1 @ q2) name"
  by (simp add: lookup_last_def map_add_def split: option.splits)

text \<open>
  Claim C4, as amended. \<open>list_tasks\<close> has no offset and no limit: the route binds the
  status filter only, so a query parameter under any other name (an offset, a limit) does
  not change the result, and a request without a filter returns the whole table in
  insertion order. That result is the slice \<open>k..k+n-1\<close> of the full result set exactly
  when the table is empty, or \<open>k = 0\<close> and \<open>n\<close> is at least the number of rows.
\<close>

theorem list_tasks_no_window:
  "(lookup_last q ''status_filter'' = None \<longrightarrow> get_tasks_route q db = Inr db) \<and>
   (name \<noteq> ''status_filter'' \<longrightarrow>
      get_tasks_route (q1 @ (name, v) # q2) db = get_tasks_route (q1 @ q2) db) \<and>
   (list_tasks None db = Inr (take n (drop k db)) \<longleftrightarrow> db = [] \<or> (k = 0 \<and> length db \<le> n))"
proof (intro conjI impI)
  assume "lookup_last q ''status_filter'' = None"
  then show "get_tasks_route q db = Inr db"
    by (simp add: get_tasks_route_def list_tasks_def)
next
  assume "name \<noteq> ''status_filter''"
  then show "get_tasks_route (q1 @ (name, v) # q2) db = get_tasks_route (q1 @ q2) db"
    by (simp add: get_tasks_route_def lookup_last_other)
next
  have "list_tasks None db = Inr (take n (drop k db)) \<longleftrightarrow> take n (drop k db) = db"
    by (auto simp: list_tasks_def)
  then show "list_tasks None db = Inr (take n (drop k db)) \<longleftrightarrow> db = [] \<or> (k = 0 \<and> length db \<le> n)"
    by (simp add: take_drop_all_iff)
qed

theorem list_tasks_no_window_witness:
  "lookup_last [(''limit'', ''2'')] ''status_filter'' = None \<and>
   get_tasks_route [(''limit'', ''2'')] example_db = Inr example_db \<and>
   ''offset'' \<noteq> ''status_filter'' \<and>
   get_tasks_route ([] @ (''offset'', ''1'') # [(''status_filter'', ''pending'')]) example_db =
     get_tasks_route ([] @ [(''status_filter'', ''pending'')]) example_db \<and>
   list_tasks None example_db = Inr (take 3 (drop 0 example_db))"
proof -
  have a: "lookup_last [(''limit'', ''2'')] ''status_filter'' = (None :: string option)"
    by (simp add: lookup_last_def)
  have b: "''offset'' \<noteq> ''status_filter''"
    by simp
  have c: "example_db = [] \<or> ((0::nat) = 0 \<and> length example_db \<le> 3)"
    by (simp add: example_db_def)
  show ?thesis
    using a b c
      list_tasks_no_window [of "[(''limit'', ''2'')]" example_db "''offset''" "[]" "''1''"
        "[(''status_filter'', ''pending'')]" 3 0]
    by simp
qed

text \<open>
  The claim as stated fails: a request for offset 1 and limit 1 over three tasks is
  answered with all three, not with the second one alone.
\<close>

theorem list_tasks_window_counterexample:
  "get_tasks_route [(''offset'', ''1''), (''limit'', ''1'')] example_db = Inr example_db \<and>
   take 1 (drop 1 example_db) = [example_db ! 1] \<and>
   get_tasks_route [(''offset'', ''1''), (''limit'', ''1'')] example_db \<noteq>
     Inr (take 1 (drop 1 example_db))"
  by (simp add: get_tasks_route_def lookup_last_def list_tasks_def example_db_def)

section \<open>Values outside the closed set of statuses\<close>

text \<open>
  Claim C5, as amended. A list request whose filter is not empty and not one of the three
  statuses fails with 400. An update of a live task whose payload sets \<open>status\<close> to
  anything but one of the three statuses (\<open>null\<close> included) fails with 400 and leaves the
  table as it was. The update handler looks the task up before it checks the status, so
  on an identifier in the range of the engine's keys that no live record has it fails
  with 404, whatever the status (an identifier outside that range is the matter of
  claim C2).
  A 400 comes from these two checks of the handlers only: \<open>list_tasks\<close> has no other
  error, and \<open>update_task\<close> answers 400 only when the payload sets such a status.
\<close>

theorem invalid_status_rejected:
  "(f \<noteq> [] \<and> f \<notin> set valid_statuses \<longrightarrow> list_tasks (Some f) db = Inl HTTP_400_BAD_REQUEST) \<and>
   (task_id \<in> set (map id' db) \<and> TaskUpdate.status u = Some v \<and>
    v \<notin> set (map Some valid_statuses) \<longrightarrow>
      update_task task_id u now db = (Inl HTTP_400_BAD_REQUEST, db)) \<and>
   (key_in_range task_id \<and> task_id \<notin> set (map id' db) \<longrightarrow>
      update_task task_id u now db = (Inl HTTP_404_NOT_FOUND, db)) \<and>
   (list_tasks status_filter db = Inl e \<longrightarrow>
      e = HTTP_400_BAD_REQUEST \<and>
      (\<exists>g. status_filter = Some g \<and> g \<noteq> [] \<and> g \<notin> set valid_statuses)) \<and>
   (fst (update_task task_id u now db) = Inl HTTP_400_BAD_REQUEST \<longrightarrow>
      (\<exists>w. TaskUpdate.status u = Some w \<and> w \<notin> set (map Some valid_statuses)))"
proof (intro conjI impI)
  assume "f \<noteq> [] \<and> f \<notin> set valid_statuses"
  then show "list_tasks (Some f) db = Inl HTTP_400_BAD_REQUEST"
    by (simp add: list_tasks_def)
next
  assume a: "task_id \<in> set (map id' db) \<and> TaskUpdate.status u = Some v \<and>
    v \<notin> set (map Some valid_statuses)"
  then obtain task where "session_get db task_id = Inr (Some task)"
    using session_get_live by blast
  with a show "update_task task_id u now db = (Inl HTTP_400_BAD_REQUEST, db)"
    by (simp add: update_task_cases)
next
  assume "key_in_range task_id \<and> task_id \<notin> set (map id' db)"
  then have "session_get db task_id = Inr None"
    by (simp add: session_get_None_iff)
  then show "update_task task_id u now db = (Inl HTTP_404_NOT_FOUND, db)"
    by (simp add: update_task_cases)
next
  assume l: "list_tasks status_filter db = Inl e"
  then show "e = HTTP_400_BAD_REQUEST"
    by (auto simp: list_tasks_def split: option.splits if_splits)
  from l show "\<exists>g. status_filter = Some g \<and> g \<noteq> [] \<and> g \<notin> set valid_statuses"
    by (auto simp: list_tasks_def split: option.splits if_splits)
next
  assume "fst (update_task task_id u now db) = Inl HTTP_400_BAD_REQUEST"
  then show "\<exists>w. TaskUpdate.status u = Some w \<and> w \<notin> set (map Some valid_statuses)"
    by (auto simp: update_task_cases split: sum.splits option.splits if_splits)
qed

theorem invalid_status_rejected_witness:
  "''invalid_status'' \<noteq> [] \<and> ''invalid_status'' \<notin> set valid_statuses \<and>
   list_tasks (Some ''invalid_status'') example_db = Inl HTTP_400_BAD_REQUEST \<and>
   2 \<in> set (map id' example_db) \<and>
   Some ''invalid_status'' \<notin> set (map Some valid_statuses) \<and>
   update_task 2 \<lparr>TaskUpdate.title = None, description = None, status = Some (Some ''invalid_status'')\<rparr>
     40 example_db = (Inl HTTP_400_BAD_REQUEST, example_db) \<and>
   key_in_range 99 \<and> 99 \<notin> set (map id' example_db) \<and>
   update_task 99 \<lparr>TaskUpdate.title = None, description = None, status = Some (Some ''invalid_status'')\<rparr>
     40 example_db = (Inl HTTP_404_NOT_FOUND, example_db)"
proof -
  have a: "''invalid_status'' \<noteq> [] \<and> ''invalid_status'' \<notin> set valid_statuses"
    by (simp add: valid_statuses_def)
  have b: "2 \<in> set (map id' example_db) \<and>
     TaskUpdate.status \<lparr>TaskUpdate.title = None, description = None,
        status = Some (Some ''invalid_status'')\<rparr> = Some (Some ''invalid_status'') \<and>
     Some ''invalid_status'' \<notin> set (map Some valid_statuses)"
    by (simp add: valid_statuses_def example_db_def)
  have c: "key_in_range 99 \<and> 99 \<notin> set (map id' example_db)"
    by (simp add: example_db_def key_in_range_def)
  show ?thesis
    using a b c
      invalid_status_rejected [of "''invalid_status''" example_db 2
        "\<lparr>TaskUpdate.title = None, description = None, status = Some (Some ''invalid_status'')\<rparr>"
        "Some ''invalid_status''" 40 "Some ''invalid_status''" HTTP_400_BAD_REQUEST]
      invalid_status_rejected [of "''invalid_status''" example_db 99
        "\<lparr>TaskUpdate.title = None, description = None, status = Some (Some ''invalid_status'')\<rparr>"
        "Some ''invalid_status''" 40 "Some ''invalid_status''" HTTP_400_BAD_REQUEST]
    by simp
qed

text \<open>
  The claim as stated fails: an update that sets an invalid status on an identifier with
  no live record is answered with 404, not with 400.
\<close>

theorem invalid_status_not_found_counterexample:
  "''invalid_status'' \<notin> set valid_statuses \<and>
   update_task 99 \<lparr>TaskUpdate.title = None, description = None, status = Some (Some ''invalid_status'')\<rparr>
     40 example_db = (Inl HTTP_404_NOT_FOUND, example_db) \<and>
   fst (update_task 99
     \<lparr>TaskUpdate.title = None, description = None, status = Some (Some ''invalid_status'')\<rparr>
     40 example_db) \<noteq> Inl HTTP_400_BAD_REQUEST"
  by (simp add: update_task_def session_get_def key_in_range_def example_db_def
      valid_statuses_def)

section \<open>Timestamps\<close>

text \<open>
  The invariant behind \<open>created_at \<le> updated_at\<close>: no row was created after the last
  reading \<open>t\<close> of the clock. Each request keeps it.
\<close>

lemma stamps_ok_step:
  "stamps_ok t db \<Longrightarrow> clock_ok t (rq # reqs) \<Longrightarrow>
   \<exists>t'. stamps_ok t' (step rq db) \<and> clock_ok t' reqs"
proof (cases rq)
  case (Create c key now1 now2)
  assume s: "stamps_ok t db" and c: "clock_ok t (rq # reqs)"
  show ?thesis
  proof (cases "key \<in> set (map id' db)")
    case True
    with s c Create have "stamps_ok now2 (step rq db)"
      by (auto simp: create_task_taken stamps_ok_def)
    with c Create show ?thesis by auto
  next
    case False
    with s c Create have "stamps_ok now2 (step rq db)"
      by (auto simp: create_task_fresh stamps_ok_def)
    with c Create show ?thesis by auto
  qed
next
  case (Update i u now)
  assume s: "stamps_ok t db" and c: "clock_ok t (rq # reqs)"
  have "stamps_ok now (step rq db)"
  proof (cases "\<exists>task. session_get db i = Inr (Some task)")
    case False
    with s c Update show ?thesis
      by (auto simp: update_task_cases stamps_ok_def split: sum.splits option.splits)
  next
    case True
    then obtain task where g: "session_get db i = Inr (Some task)"
      by blast
    then have "task \<in> set db" by (simp add: session_get_Some_id)
    with s c Update g show ?thesis
      by (auto simp: update_task_cases stamps_ok_def session_update_def split: if_splits)
  qed
  with c Update show ?thesis by auto
next
  case (Delete i)
  assume s: "stamps_ok t db" and c: "clock_ok t (rq # reqs)"
  with Delete have "stamps_ok t (step rq db)"
    by (auto simp: delete_task_def stamps_ok_def session_delete_def
        split: sum.splits option.splits db_error.splits)
  with c Delete show ?thesis by auto
qed

lemma stamps_ok_run:
  "stamps_ok t db \<Longrightarrow> clock_ok t reqs \<Longrightarrow> \<exists>t'. stamps_ok t' (run reqs db)"
proof (induction reqs arbitrary: t db)
  case Nil
  then show ?case by (auto simp: run_def)
next
  case (Cons rq reqs)
  from stamps_ok_step [OF Cons.prems] obtain t' where
    "stamps_ok t' (step rq db)" and "clock_ok t' reqs" by blast
  from Cons.IH [OF this] show ?case by (simp add: run_def)
qed

text \<open>
  Claim C6, as amended. A successful update keeps \<open>created_at\<close> and sets \<open>updated_at\<close> to
  the reading of the clock it takes, in the stored row too; \<open>updated_at\<close> strictly
  increases when that reading is later than the prior value. In every state reached from
  the empty table by requests whose clock readings never go backwards,
  \<open>created_at \<le> updated_at\<close> holds for every row.
\<close>

theorem update_task_timestamps:
  "(session_get db task_id = Inr (Some task) \<and> update_task task_id u now db = (Inr task', db') \<longrightarrow>
      created_at task' = created_at task \<and> updated_at task' = now \<and>
      session_get db' task_id = Inr (Some task') \<and>
      (updated_at task < now \<longrightarrow> updated_at task < updated_at task')) \<and>
   (clock_ok t reqs \<longrightarrow> (\<forall>r \<in> set (run reqs []). created_at r \<le> updated_at r))"
proof -
  have upd: "created_at task' = created_at task \<and> updated_at task' = now \<and>
      session_get db' task_id = Inr (Some task') \<and>
      (updated_at task < now \<longrightarrow> updated_at task < updated_at task')"
    if a: "session_get db task_id = Inr (Some task) \<and> update_task task_id u now db = (Inr task', db')"
  proof -
    from a have t': "created_at task' = created_at task \<and> updated_at task' = now \<and>
        id' task' = task_id \<and> db' = session_update task' db"
      by (auto simp: update_task_cases session_get_Some_id split: if_splits)
    from a have "task_id \<in> set (map id' db)"
      using session_get_Some_id [of db task_id task] by auto
    with t' have "session_get db' task_id = Inr (Some task')"
      by (simp add: session_get_session_update)
    with t' show ?thesis by simp
  qed
  have inv: "\<forall>r \<in> set (run reqs []). created_at r \<le> updated_at r" if c: "clock_ok t reqs"
  proof -
    have "stamps_ok t []" by (simp add: stamps_ok_def)
    with c obtain t' where "stamps_ok t' (run reqs [])"
      using stamps_ok_run by blast
    then show ?thesis by (simp add: stamps_ok_def)
  qed
  from upd inv show ?thesis by blast
qed

theorem update_task_timestamps_witness:
  "session_get example_db 2 = Inr (Some (example_db ! 1)) \<and>
   update_task 2 \<lparr>TaskUpdate.title = None, description = None, status = Some (Some ''completed'')\<rparr>
       40 example_db =
     (Inr \<lparr>id' = 2, title = ''Task 2'', description = Some ''second'', status = ''completed'',
          created_at = 20, updated_at = 40\<rparr>,
      [example_db ! 0,
       \<lparr>id' = 2, title = ''Task 2'', description = Some ''second'', status = ''completed'',
         created_at = 20, updated_at = 40\<rparr>,
       example_db ! 2]) \<and>
   updated_at (example_db ! 1) = 25 \<and>
   clock_ok 0 [Create \<lparr>TaskCreate.title = ''Task 1'', description = None\<rparr> 1 10 11,
               Update 1 \<lparr>TaskUpdate.title = None, description = None,
                         status = Some (Some ''in_progress'')\<rparr> 20] \<and>
   run [Create \<lparr>TaskCreate.title = ''Task 1'', description = None\<rparr> 1 10 11,
        Update 1 \<lparr>TaskUpdate.title = None, description = None,
                  status = Some (Some ''in_progress'')\<rparr> 20] [] =
     [\<lparr>id' = 1, title = ''Task 1'', description = None, status = ''in_progress'',
       created_at = 10, updated_at = 20\<rparr>]"
proof -
  have g: "session_get example_db 2 = Inr (Some (example_db ! 1))"
    by (simp add: session_get_def example_db_def)
  have u: "update_task 2
       \<lparr>TaskUpdate.title = None, description = None, status = Some (Some ''completed'')\<rparr>
       40 example_db =
     (Inr \<lparr>id' = 2, title = ''Task 2'', description = Some ''second'', status = ''completed'',
          created_at = 20, updated_at = 40\<rparr>,
      [example_db ! 0,
       \<lparr>id' = 2, title = ''Task 2'', description = Some ''second'', status = ''completed'',
         created_at = 20, updated_at = 40\<rparr>,
       example_db ! 2])"
    by (simp add: update_task_def model_dump_def session_get_def session_update_def
        valid_statuses_def example_db_def Let_def)
  have c: "clock_ok 0 [Create \<lparr>TaskCreate.title = ''Task 1'', description = None\<rparr> 1 10 11,
               Update 1 \<lparr>TaskUpdate.title = None, description = None,
                         status = Some (Some ''in_progress'')\<rparr> 20]"
    by simp
  have r: "run [Create \<lparr>TaskCreate.title = ''Task 1'', description = None\<rparr> 1 10 11,
        Update 1 \<lparr>TaskUpdate.title = None, description = None,
                  status = Some (Some ''in_progress'')\<rparr> 20] [] =
     [\<lparr>id' = 1, title = ''Task 1'', description = None, status = ''in_progress'',
       created_at = 10, updated_at = 20\<rparr>]"
    by (simp add: run_def create_task_def session_insert_def Task_init_def update_task_def
        model_dump_def session_get_def session_update_def valid_statuses_def Let_def)
  show ?thesis
    using g u c r
      update_task_timestamps [of example_db 2 "example_db ! 1"
        "\<lparr>TaskUpdate.title = None, description = None, status = Some (Some ''completed'')\<rparr>" 40
        "\<lparr>id' = 2, title = ''Task 2'', description = Some ''second'', status = ''completed'',
          created_at = 20, updated_at = 40\<rparr>"
        "[example_db ! 0,
          \<lparr>id' = 2, title = ''Task 2'', description = Some ''second'', status = ''completed'',
            created_at = 20, updated_at = 40\<rparr>,
          example_db ! 2]"
        0
        "[Create \<lparr>TaskCreate.title = ''Task 1'', description = None\<rparr> 1 10 11,
          Update 1 \<lparr>TaskUpdate.title = None, description = None,
                    status = Some (Some ''in_progress'')\<rparr> 20]"]
    by (simp add: example_db_def)
qed

text \<open>
  The claim as stated fails for a clock that does not advance: an update that reads the
  same instant as the creation leaves \<open>updated_at\<close> as it was, and an update that reads
  an earlier instant (the wall clock was set back) leads to a state with
  \<open>updated_at < created_at\<close>.
\<close>

theorem update_task_clock_counterexample:
  "run [Create \<lparr>TaskCreate.title = ''Task'', description = None\<rparr> 1 10 10] [] =
     [\<lparr>id' = 1, title = ''Task'', description = None, status = ''pending'',
       created_at = 10, updated_at = 10\<rparr>] \<and>
   update_task 1 \<lparr>TaskUpdate.title = Some (Some ''Updated''), description = None, status = None\<rparr> 10
     [\<lparr>id' = 1, title = ''Task'', description = None, status = ''pending'',
       created_at = 10, updated_at = 10\<rparr>] =
     (Inr \<lparr>id' = 1, title = ''Updated'', description = None, status = ''pending'',
          created_at = 10, updated_at = 10\<rparr>,
      [\<lparr>id' = 1, title = ''Updated'', description = None, status = ''pending'',
         created_at = 10, updated_at = 10\<rparr>]) \<and>
   \<not> updated_at \<lparr>id' = 1, title = ''Task'', description = None, status = ''pending'',
         created_at = 10, updated_at = 10\<rparr>
     < updated_at \<lparr>id' = 1, title = ''Updated'', description = None, status = ''pending'',
         created_at = 10, updated_at = 10\<rparr> \<and>
   run [Create \<lparr>TaskCreate.title = ''Task'', description = None\<rparr> 1 10 10,
        Update 1 \<lparr>TaskUpdate.title = Some (Some ''Updated''), description = None, status = None\<rparr> 5]
       [] =
     [\<lparr>id' = 1, title = ''Updated'', description = None, status = ''pending'',
       created_at = 10, updated_at = 5\<rparr>] \<and>
   \<not> created_at \<lparr>id' = 1, title = ''Updated'', description = None, status = ''pending'',
         created_at = 10, updated_at = 5\<rparr>
     \<le> updated_at \<lparr>id' = 1, title = ''Updated'', description = None, status = ''pending'',
         created_at = 10, updated_at = 5\<rparr>"
  by (simp add: run_def create_task_def session_insert_def Task_init_def update_task_def
      model_dump_def session_get_def session_update_def valid_statuses_def Let_def)

section \<open>Creation\<close>

text \<open>
  Claim C7, as amended. For every creation payload and every key from the engine that no
  live record holds, \<open>create_task\<close> succeeds: the new record has that key, the payload's
  title and description and the status pending; \<open>created_at\<close> and \<open>updated_at\<close> hold two
  successive readings of the clock (the same instant only when the readings coincide);
  the record is appended to the table as its newest entry, and the record returned is the
  stored one, as a lookup by its key and the listing show.
\<close>

theorem create_task_succeeds:
  "key \<notin> set (map id' db) \<longrightarrow>
     create_task c key now1 now2 db =
       (Inr \<lparr>id' = key, title = TaskCreate.title c, description = TaskCreate.description c,
             status = ''pending'', created_at = now1, updated_at = now2\<rparr>,
        db @ [\<lparr>id' = key, title = TaskCreate.title c, description = TaskCreate.description c,
               status = ''pending'', created_at = now1, updated_at = now2\<rparr>]) \<and>
     get_task key (snd (create_task c key now1 now2 db)) = fst (create_task c key now1 now2 db) \<and>
     list_tasks None (snd (create_task c key now1 now2 db)) =
       Inr (db @ [\<lparr>id' = key, title = TaskCreate.title c, description = TaskCreate.description c,
                   status = ''pending'', created_at = now1, updated_at = now2\<rparr>])"
proof
  assume k: "key \<notin> set (map id' db)"
  then have n: "find (\<lambda>r. id' r = key) db = None"
    by (simp add: find_id_None_iff)
  from k show "create_task c key now1 now2 db =
       (Inr \<lparr>id' = key, title = TaskCreate.title c, description = TaskCreate.description c,
             status = ''pending'', created_at = now1, updated_at = now2\<rparr>,
        db @ [\<lparr>id' = key, title = TaskCreate.title c, description = TaskCreate.description c,
               status = ''pending'', created_at = now1, updated_at = now2\<rparr>]) \<and>
     get_task key (snd (create_task c key now1 now2 db)) = fst (create_task c key now1 now2 db) \<and>
     list_tasks None (snd (create_task c key now1 now2 db)) =
       Inr (db @ [\<lparr>id' = key, title = TaskCreate.title c, description = TaskCreate.description c,
                   status = ''pending'', created_at = now1, updated_at = now2\<rparr>])"
    using n by (simp add: create_task_fresh get_task_def list_tasks_def find_append session_get_def)
qed

theorem create_task_succeeds_witness:
  "4 \<notin> set (map id' example_db) \<and>
   create_task \<lparr>TaskCreate.title = ''Task 4'', description = Some ''fourth''\<rparr> 4 50 51 example_db =
     (Inr \<lparr>id' = 4, title = ''Task 4'', description = Some ''fourth'', status = ''pending'',
           created_at = 50, updated_at = 51\<rparr>,
      example_db @ [\<lparr>id' = 4, title = ''Task 4'', description = Some ''fourth'',
           status = ''pending'', created_at = 50, updated_at = 51\<rparr>])"
proof -
  have k: "4 \<notin> set (map id' example_db)"
    by (simp add: example_db_def)
  show ?thesis
    using k create_task_succeeds [of 4 example_db
        "\<lparr>TaskCreate.title = ''Task 4'', description = Some ''fourth''\<rparr>" 50 51]
    by simp
qed

text \<open>
  The claim as stated fails: the two default factories read the clock one after the
  other, and with readings 100 and 101 the new record has \<open>created_at \<noteq> updated_at\<close>.
\<close>

theorem create_task_two_readings_counterexample:
  "create_task \<lparr>TaskCreate.title = ''Test Task'', description = None\<rparr> 1 100 101 [] =
     (Inr \<lparr>id' = 1, title = ''Test Task'', description = None, status = ''pending'',
           created_at = 100, updated_at = 101\<rparr>,
      [\<lparr>id' = 1, title = ''Test Task'', description = None, status = ''pending'',
         created_at = 100, updated_at = 101\<rparr>]) \<and>
   created_at \<lparr>id' = 1, title = ''Test Task'', description = None, status = ''pending'',
         created_at = 100, updated_at = 101\<rparr> \<noteq>
   updated_at \<lparr>id' = 1, title = ''Test Task'', description = None, status = ''pending'',
         created_at = 100, updated_at = 101\<rparr>"
  by (simp add: create_task_def session_insert_def session_get_def Task_init_def)

lemma TaskCreate_validate_other:
  "n \<noteq> ''title'' \<Longrightarrow> n \<noteq> ''description'' \<Longrightarrow>
   TaskCreate_validate (b1 @ (n, v) # b2) = TaskCreate_validate (b1 @ b2)"
proof -
  assume n: "n \<noteq> ''title''" "n \<noteq> ''description''"
  have t: "lookup_last (b1 @ (n, v) # b2) ''title'' = lookup_last (b1 @ b2) ''title''"
    using n(1) by (rule lookup_last_other)
  have d: "lookup_last (b1 @ (n, v) # b2) ''description'' = lookup_last (b1 @ b2) ''description''"
    using n(2) by (rule lookup_last_other)
  show ?thesis
    unfolding TaskCreate_validate_def t d ..
qed

text \<open>
  Claim C10. For every payload of the creation schema, \<open>create_task\<close> creates a record
  whose status is pending (given, as for every creation, a key from the engine that no
  live record holds), and so does the route for every request body that the validation
  accepts. No record that \<open>create_task\<close> or the route returns has another status, and a
  \<open>status\<close> member in the body is ignored: the route answers the body with it as it
  answers the body without it.
\<close>

theorem create_status_pending:
  "(key \<notin> set (map id' db) \<longrightarrow>
      (\<exists>row. create_task c key now1 now2 db = (Inr row, db @ [row]) \<and>
         Task.status row = ''pending'')) \<and>
   (key \<notin> set (map id' db) \<and> TaskCreate_validate body = Inr c \<longrightarrow>
      (\<exists>row. post_tasks_route body key now1 now2 db = (Inr row, db @ [row]) \<and>
         Task.status row = ''pending'')) \<and>
   (create_task c key now1 now2 db = (Inr task, db') \<longrightarrow> Task.status task = ''pending'') \<and>
   (post_tasks_route body key now1 now2 db = (Inr task, db') \<longrightarrow>
      Task.status task = ''pending'') \<and>
   post_tasks_route (b1 @ (''status'', v) # b2) key now1 now2 db =
     post_tasks_route (b1 @ b2) key now1 now2 db"
proof -
  have created: "\<exists>row. create_task p key now1 now2 db = (Inr row, db @ [row]) \<and>
         Task.status row = ''pending''"
    if "key \<notin> set (map id' db)" for p
    using that by (simp add: create_task_fresh)
  have routed: "\<exists>row. post_tasks_route body key now1 now2 db = (Inr row, db @ [row]) \<and>
         Task.status row = ''pending''"
    if "key \<notin> set (map id' db) \<and> TaskCreate_validate body = Inr c"
    using that created [of c] by (simp add: post_tasks_route_def)
  have a: "Task.status task = ''pending''"
    if "create_task p key now1 now2 db = (Inr task, db')" for p
    using that
    by (cases "key \<in> set (map id' db)") (auto simp: create_task_fresh create_task_taken)
  have b: "Task.status task = ''pending''"
    if "post_tasks_route body key now1 now2 db = (Inr task, db')"
    using that a by (auto simp: post_tasks_route_def split: sum.splits)
  have ignored: "post_tasks_route (b1 @ (''status'', v) # b2) key now1 now2 db =
     post_tasks_route (b1 @ b2) key now1 now2 db"
    by (simp add: post_tasks_route_def TaskCreate_validate_other)
  from created [of c] routed a [of c] b ignored show ?thesis
    by blast
qed

theorem create_status_pending_witness:
  "4 \<notin> set (map id' example_db) \<and>
   TaskCreate_validate [(''title'', JString ''Task 4''), (''status'', JString ''completed'')] =
     Inr \<lparr>TaskCreate.title = ''Task 4'', description = None\<rparr> \<and>
   create_task \<lparr>TaskCreate.title = ''Task 4'', description = None\<rparr> 4 50 50 example_db =
     (Inr \<lparr>id' = 4, title = ''Task 4'', description = None, status = ''pending'',
           created_at = 50, updated_at = 50\<rparr>,
      example_db @ [\<lparr>id' = 4, title = ''Task 4'', description = None, status = ''pending'',
           created_at = 50, updated_at = 50\<rparr>]) \<and>
   post_tasks_route [(''title'', JString ''Task 4''), (''status'', JString ''completed'')]
       4 50 50 example_db =
     (Inr \<lparr>id' = 4, title = ''Task 4'', description = None, status = ''pending'',
           created_at = 50, updated_at = 50\<rparr>,
      example_db @ [\<lparr>id' = 4, title = ''Task 4'', description = None, status = ''pending'',
           created_at = 50, updated_at = 50\<rparr>]) \<and>
   post_tasks_route ([(''title'', JString ''Task 4'')] @ (''status'', JString ''completed'') # [])
       4 50 50 example_db =
   post_tasks_route ([(''title'', JString ''Task 4'')] @ []) 4 50 50 example_db"
proof -
  have k: "4 \<notin> set (map id' example_db)"
    by (simp add: example_db_def)
  have v: "TaskCreate_validate [(''title'', JString ''Task 4''), (''status'', JString ''completed'')] =
     Inr \<lparr>TaskCreate.title = ''Task 4'', description = None\<rparr>"
    by (simp add: TaskCreate_validate_def lookup_last_def)
  have c: "create_task \<lparr>TaskCreate.title = ''Task 4'', description = None\<rparr> 4 50 50 example_db =
     (Inr \<lparr>id' = 4, title = ''Task 4'', description = None, status = ''pending'',
           created_at = 50, updated_at = 50\<rparr>,
      example_db @ [\<lparr>id' = 4, title = ''Task 4'', description = None, status = ''pending'',
           created_at = 50, updated_at = 50\<rparr>])"
    by (simp add: create_task_def session_insert_def session_get_def Task_init_def example_db_def)
  have p: "post_tasks_route [(''title'', JString ''Task 4''), (''status'', JString ''completed'')]
       4 50 50 example_db =
     (Inr \<lparr>id' = 4, title = ''Task 4'', description = None, status = ''pending'',
           created_at = 50, updated_at = 50\<rparr>,
      example_db @ [\<lparr>id' = 4, title = ''Task 4'', description = None, status = ''pending'',
           created_at = 50, updated_at = 50\<rparr>])"
    by (simp add: post_tasks_route_def v c)
  show ?thesis
    using k v c p
      create_status_pending [of 4 example_db
        "\<lparr>TaskCreate.title = ''Task 4'', description = None\<rparr>" 50 50
        "[(''title'', JString ''Task 4''), (''status'', JString ''completed'')]"
        "\<lparr>id' = 4, title = ''Task 4'', description = None, status = ''pending'',
          created_at = 50, updated_at = 50\<rparr>"
        "example_db @ [\<lparr>id' = 4, title = ''Task 4'', description = None, status = ''pending'',
           created_at = 50, updated_at = 50\<rparr>]"
        "[(''title'', JString ''Task 4'')]" "JString ''completed''" "[]"]
    by simp
qed

section \<open>Identifiers\<close>

text \<open>What each request does to the column of ids.\<close>

lemma step_ids:
  "map id' (step (Update task_id u now) db) = map id' db"
  "map id' (step (Delete task_id) db) = filter (\<lambda>k. k \<noteq> task_id) (map id' db)"
  "map id' (step (Create c key now1 now2) db) =
     (if key \<in> set (map id' db) then map id' db else map id' db @ [key])"
proof -
  show "map id' (step (Update task_id u now) db) = map id' db"
  proof (cases "\<exists>task. session_get db task_id = Inr (Some task)")
    case False
    then show ?thesis
      by (auto simp: update_task_cases split: sum.splits option.splits)
  next
    case True
    then obtain task where g: "session_get db task_id = Inr (Some task)"
      by blast
    then have "id' task = task_id" by (simp add: session_get_Some_id)
    with g show ?thesis
      by (auto simp: update_task_cases session_update_def)
  qed
  show "map id' (step (Delete task_id) db) = filter (\<lambda>k. k \<noteq> task_id) (map id' db)"
  proof (cases "\<exists>task. session_get db task_id = Inr (Some task)")
    case False
    then have "task_id \<notin> set (map id' db)"
      using session_get_live by blast
    then have "filter (\<lambda>k. k \<noteq> task_id) (map id' db) = map id' db"
      by (auto simp: filter_id_conv)
    with False show ?thesis
      by (auto simp: delete_task_def split: sum.splits option.splits db_error.splits)
  next
    case True
    then obtain task where g: "session_get db task_id = Inr (Some task)"
      by blast
    then have "id' task = task_id" by (simp add: session_get_Some_id)
    with g show ?thesis
      by (simp add: delete_task_def session_delete_def filter_map comp_def)
  qed
  show "map id' (step (Create c key now1 now2) db) =
     (if key \<in> set (map id' db) then map id' db else map id' db @ [key])"
    by (cases "key \<in> set (map id' db)") (simp_all add: create_task_fresh create_task_taken)
qed

lemma distinct_step: "distinct (map id' db) \<Longrightarrow> distinct (map id' (step rq db))"
proof (cases rq)
  case (Create c key now1 now2)
  assume "distinct (map id' db)"
  then have "distinct (if key \<in> set (map id' db) then map id' db else map id' db @ [key])"
    by simp
  with Create show ?thesis by (simp only: step_ids)
next
  case (Update i u now)
  assume "distinct (map id' db)"
  with Update show ?thesis by (simp only: step_ids)
next
  case (Delete i)
  assume "distinct (map id' db)"
  then have "distinct (filter (\<lambda>k. k \<noteq> i) (map id' db))"
    by simp
  with Delete show ?thesis by (simp only: step_ids)
qed

lemma distinct_run: "distinct (map id' db) \<Longrightarrow> distinct (map id' (run reqs db))"
  unfolding run_def by (induction reqs arbitrary: db) (simp_all add: distinct_step)

text \<open>
  Claim C8, as amended. After any sequence of create, update and delete requests, no two
  live records share an id. No request changes the id of an existing record: an update
  leaves the column of ids as it is, a delete removes the deleted id from it and nothing
  else, and a create appends the key the engine issued (or fails and changes nothing when
  a live record holds that key). Whether an id freed by a delete is issued again is the
  engine's choice, which the code does not constrain.
\<close>

theorem ids_unique_and_stable:
  "distinct (map id' (run reqs [])) \<and>
   map id' (step (Update task_id u now) db) = map id' db \<and>
   map id' (step (Delete task_id) db) = filter (\<lambda>k. k \<noteq> task_id) (map id' db) \<and>
   map id' (step (Create c key now1 now2) db) =
     (if key \<in> set (map id' db) then map id' db else map id' db @ [key])"
  using distinct_run [of "[]" reqs] by (simp only: step_ids) simp

theorem ids_unique_and_stable_witness:
  "run [Create \<lparr>TaskCreate.title = ''Task 1'', description = None\<rparr> 1 10 10,
        Create \<lparr>TaskCreate.title = ''Task 2'', description = None\<rparr> 2 20 20,
        Update 1 \<lparr>TaskUpdate.title = None, description = None,
                  status = Some (Some ''completed'')\<rparr> 30,
        Delete 2,
        Create \<lparr>TaskCreate.title = ''Task 3'', description = None\<rparr> 7 40 40] [] =
     [\<lparr>id' = 1, title = ''Task 1'', description = None, status = ''completed'',
       created_at = 10, updated_at = 30\<rparr>,
      \<lparr>id' = 7, title = ''Task 3'', description = None, status = ''pending'',
       created_at = 40, updated_at = 40\<rparr>] \<and>
   distinct (map id' (run [Create \<lparr>TaskCreate.title = ''Task 1'', description = None\<rparr> 1 10 10,
        Create \<lparr>TaskCreate.title = ''Task 2'', description = None\<rparr> 2 20 20,
        Update 1 \<lparr>TaskUpdate.title = None, description = None,
                  status = Some (Some ''completed'')\<rparr> 30,
        Delete 2,
        Create \<lparr>TaskCreate.title = ''Task 3'', description = None\<rparr> 7 40 40] [])) \<and>
   map id' (step (Update 2 \<lparr>TaskUpdate.title = Some (Some ''Renamed''), description = None,
                  status = None\<rparr> 40) example_db) = [1, 2, 3] \<and>
   map id' (step (Delete 2) example_db) = [1, 3] \<and>
   map id' (step (Create \<lparr>TaskCreate.title = ''Task 4'', description = None\<rparr> 4 50 50)
                 example_db) = [1, 2, 3, 4]"
proof -
  have r: "run [Create \<lparr>TaskCreate.title = ''Task 1'', description = None\<rparr> 1 10 10,
        Create \<lparr>TaskCreate.title = ''Task 2'', description = None\<rparr> 2 20 20,
        Update 1 \<lparr>TaskUpdate.title = None, description = None,
                  status = Some (Some ''completed'')\<rparr> 30,
        Delete 2,
        Create \<lparr>TaskCreate.title = ''Task 3'', description = None\<rparr> 7 40 40] [] =
     [\<lparr>id' = 1, title = ''Task 1'', description = None, status = ''completed'',
       created_at = 10, updated_at = 30\<rparr>,
      \<lparr>id' = 7, title = ''Task 3'', description = None, status = ''pending'',
       created_at = 40, updated_at = 40\<rparr>]"
    by (simp add: run_def create_task_def session_insert_def Task_init_def update_task_def
        delete_task_def session_delete_def model_dump_def session_get_def session_update_def
        valid_statuses_def Let_def)
  have e: "map id' example_db = [1, 2, 3]"
    by (simp add: example_db_def)
  show ?thesis
    using r e
      ids_unique_and_stable [of
        "[Create \<lparr>TaskCreate.title = ''Task 1'', description = None\<rparr> 1 10 10,
          Create \<lparr>TaskCreate.title = ''Task 2'', description = None\<rparr> 2 20 20,
          Update 1 \<lparr>TaskUpdate.title = None, description = None,
                    status = Some (Some ''completed'')\<rparr> 30,
          Delete 2,
          Create \<lparr>TaskCreate.title = ''Task 3'', description = None\<rparr> 7 40 40]"
        2 "\<lparr>TaskUpdate.title = Some (Some ''Renamed''), description = None, status = None\<rparr>" 40
        example_db "\<lparr>TaskCreate.title = ''Task 4'', description = None\<rparr>" 4 50 50]
    by simp
qed

text \<open>
  The claim as stated fails: with keys issued by \<open>sqlite_rowid\<close>, the id 2 of the deleted
  task \<open>second\<close> is issued again to the task \<open>third\<close>, a different record.
\<close>

theorem id_reissued_counterexample:
  "run [Create \<lparr>TaskCreate.title = ''first'', description = None\<rparr> (sqlite_rowid []) 10 10] [] =
     [\<lparr>id' = 1, title = ''first'', description = None, status = ''pending'',
       created_at = 10, updated_at = 10\<rparr>] \<and>
   sqlite_rowid [\<lparr>id' = 1, title = ''first'', description = None, status = ''pending'',
       created_at = 10, updated_at = 10\<rparr>] = 2 \<and>
   run [Create \<lparr>TaskCreate.title = ''first'', description = None\<rparr> 1 10 10,
        Create \<lparr>TaskCreate.title = ''second'', description = None\<rparr> 2 20 20] [] =
     [\<lparr>id' = 1, title = ''first'', description = None, status = ''pending'',
       created_at = 10, updated_at = 10\<rparr>,
      \<lparr>id' = 2, title = ''second'', description = None, status = ''pending'',
       created_at = 20, updated_at = 20\<rparr>] \<and>
   run [Create \<lparr>TaskCreate.title = ''first'', description = None\<rparr> 1 10 10,
        Create \<lparr>TaskCreate.title = ''second'', description = None\<rparr> 2 20 20,
        Delete 2] [] =
     [\<lparr>id' = 1, title = ''first'', description = None, status = ''pending'',
       created_at = 10, updated_at = 10\<rparr>] \<and>
   run [Create \<lparr>TaskCreate.title = ''first'', description = None\<rparr> 1 10 10,
        Create \<lparr>TaskCreate.title = ''second'', description = None\<rparr> 2 20 20,
        Delete 2,
        Create \<lparr>TaskCreate.title = ''third'', description = None\<rparr>
          (sqlite_rowid [\<lparr>id' = 1, title = ''first'', description = None, status = ''pending'',
             created_at = 10, updated_at = 10\<rparr>]) 30 30] [] =
     [\<lparr>id' = 1, title = ''first'', description = None, status = ''pending'',
       created_at = 10, updated_at = 10\<rparr>,
      \<lparr>id' = 2, title = ''third'', description = None, status = ''pending'',
       created_at = 30, updated_at = 30\<rparr>]"
  by (simp add: run_def create_task_def session_insert_def Task_init_def
      delete_task_def session_delete_def session_get_def sqlite_rowid_def Let_def)

end
